theory Spec2Isabelle
  imports Main "HOL-Library.Sublist"
begin

section \<open>The member data read by the profile view\<close>

text \<open>
  The development follows \<^verbatim>\<open>src/info/views.py\<close>: the select menu \<^verbatim>\<open>UISelect\<close> and
  the view \<^verbatim>\<open>UIView\<close>. Objects of the chat library are records holding the attributes
  that the code reads. A \<^verbatim>\<open>datetime\<close> is its number of microseconds since the epoch,
  which is the resolution of the type and the order in which two of them compare; an
  image asset is its url.
\<close>

record role =
  role_id :: nat
  role_mention :: string

record member =
  user_id :: nat
  user_str :: string
  nick :: "string option"
  display_name :: string
  mention :: string
  color :: nat
  roles :: "role list"
  avatar :: "string option"
  default_avatar :: string
  guild_avatar :: "string option"
  display_avatar_png :: string
  created_at :: int
  joined_at :: "int option"
  voice_channel :: "(string \<times> nat) option"
  mutual_guilds :: "nat list option"

text \<open>
  \<^verbatim>\<open>int(dt.replace(tzinfo=datetime.timezone.utc).timestamp())\<close>: the whole seconds,
  rounded towards zero.
\<close>

definition timestamp_int :: "int \<Rightarrow> int" where
  "timestamp_int dt = (if dt < 0 then - ((- dt) div 1000000) else dt div 1000000)"

text \<open>\<^verbatim>\<open>discord.utils.MISSING\<close> is a value of its own, different from every string.\<close>

datatype str_or_missing = MISSING | Str string

section \<open>Strings\<close>

text \<open>\<^verbatim>\<open>str(n)\<close> for a non-negative integer: its decimal digits.\<close>

definition digit_char :: "nat \<Rightarrow> char" where
  "digit_char d = ''0123456789'' ! d"

fun str_nat :: "nat \<Rightarrow> string" where
  "str_nat n = (if n < 10 then [digit_char n] else str_nat (n div 10) @ [digit_char (n mod 10)])"

declare str_nat.simps [simp del]

text \<open>\<^verbatim>\<open>sep.join(xs)\<close>.\<close>

fun join :: "string \<Rightarrow> string list \<Rightarrow> string" where
  "join sep [] = []"
| "join sep [x] = x"
| "join sep (x # y # ys) = x @ sep @ join sep (y # ys)"

text \<open>
  \<^verbatim>\<open>template.format(number=n)\<close> for a template whose only replacement field is
  \<^verbatim>\<open>{number}\<close>: every occurrence of the field is replaced by \<^verbatim>\<open>str(n)\<close>.
\<close>

fun format_number :: "string \<Rightarrow> nat \<Rightarrow> string" where
  "format_number [] n = []"
| "format_number (c # cs) n =
     (if take 8 (c # cs) = ''{number}'' then str_nat n @ format_number (drop 7 cs) n
      else c # format_number cs n)"

section \<open>The role list\<close>

text \<open>
  \<^verbatim>\<open>UIView._get_roles\<close>: the member's roles reversed, without the last one (the
  implicit everyone role, which is the first of \<^verbatim>\<open>member.roles\<close>), as mentions;
  \<^verbatim>\<open>None\<close> when nothing is left.
\<close>

definition get_roles :: "member \<Rightarrow> string list option" where
  "get_roles m =
     (let rs = butlast (rev (roles m))
      in if rs \<noteq> [] then Some (map role_mention rs) else None)"

text \<open>The template of the summary line and the budget of an embed description.\<close>

definition formatted :: string where
  "formatted = ''and {number} more roles not displayed due to embed limits.''"

definition newline :: char where
  "newline = CHR 0x0A"

text \<open>\<^verbatim>\<open>"{}\n".format(r)\<close>.\<close>

definition chunk_of :: "string \<Rightarrow> string" where
  "chunk_of r = r @ [newline]"

text \<open>
  The loop of \<^verbatim>\<open>UIView._format_roles\<close> over the roles, on the triple
  \<^verbatim>\<open>(available_length, chunks, remaining)\<close>. It has no \<^verbatim>\<open>break\<close>: a rejected item
  only increments \<^verbatim>\<open>remaining\<close>, and the next item is tried against the same
  \<^verbatim>\<open>available_length\<close>.
\<close>

fun roles_loop :: "string list \<Rightarrow> int \<times> string list \<times> nat \<Rightarrow> int \<times> string list \<times> nat" where
  "roles_loop [] st = st"
| "roles_loop (r # rs) (available_length, chunks, remaining) =
     (let chunk = chunk_of r; sz = int (length chunk)
      in if sz < available_length
         then roles_loop rs (available_length - sz, chunks @ [chunk], remaining)
         else roles_loop rs (available_length, chunks, remaining + 1))"

text \<open>\<^verbatim>\<open>UIView._format_roles\<close>; of \<^verbatim>\<open>self\<close> it reads \<^verbatim>\<open>self.user\<close> only.\<close>

definition format_roles :: "member \<Rightarrow> str_or_missing" where
  "format_roles user =
     (case get_roles user of
        None \<Rightarrow> MISSING
      | Some rs \<Rightarrow>
          if rs = [] then MISSING
          else
            let string = join '', '' rs
            in if length string > 4000
               then
                 (case roles_loop rs (4000 - int (length formatted), [], 0) of
                    (available_length, chunks, remaining) \<Rightarrow>
                      Str (concat (chunks @ [format_number formatted remaining])))
               else Str string)"

section \<open>Collaborators\<close>

text \<open>
  Exceptions that the calls of the code can raise. \<^verbatim>\<open>NotFound\<close> and \<^verbatim>\<open>Forbidden\<close>
  are subclasses of \<^verbatim>\<open>discord.HTTPException\<close>; the others are not.
\<close>

datatype exn = HTTPException | NotFound | Forbidden | AttributeError | ValueError | OtherError

fun isinstance_HTTPException :: "exn \<Rightarrow> bool" where
  "isinstance_HTTPException HTTPException = True"
| "isinstance_HTTPException NotFound = True"
| "isinstance_HTTPException Forbidden = True"
| "isinstance_HTTPException _ = False"

text \<open>
  The class \<^verbatim>\<open>Cache\<close> is imported from \<^verbatim>\<open>.cache\<close> and the cog \<^verbatim>\<open>Mod\<close> from the bot
  framework: the view only calls them, so they are parameters, with the methods that the
  view calls as fields. \<^verbatim>\<open>get_names\<close> returns three lists, each of which can be
  \<^verbatim>\<open>MISSING\<close> (\<open>None\<close>); the view ignores the second.
\<close>

record cache =
  get_select_emoji :: "string \<Rightarrow> string"
  get_member_device_status :: "member \<Rightarrow> string \<times> string \<times> string"
  get_user_badges :: "member \<Rightarrow> string \<times> nat"
  get_special_badges :: "member \<Rightarrow> string list"

record mod_cog =
  get_names :: "member \<Rightarrow> string list option \<times> string list option \<times> string list option"
  get_status_string :: "member \<Rightarrow> string"

record guild =
  guild_id :: nat
  guild_members :: "nat list"

text \<open>
  What the objects that the view refers to answer at the moment of a call: they are
  mutated by the framework between two calls, so every operation takes the current
  \<open>world\<close>. \<open>user\<close> is \<^verbatim>\<open>self.user\<close>, \<open>fetch_user\<close> the outcome of
  \<^verbatim>\<open>bot.fetch_user(self.user.id)\<close> (an exception, or the banner of the fetched user),
  \<open>get_cog_mod\<close> is \<^verbatim>\<open>bot.get_cog("Mod")\<close>, \<open>ctx_guild_members\<close> is \<^verbatim>\<open>ctx.guild.members\<close>.
\<close>

record world =
  user :: member
  cache :: cache
  get_cog_mod :: "mod_cog option"
  guilds :: "guild list"
  ctx_guild_members :: "member list"
  ctx_message_created_at :: int
  intents_presences :: bool
  fetch_user :: "exn + string option"
  filter_invites :: "string \<Rightarrow> string"

section \<open>The select menu\<close>

record select_option =
  label :: string
  emoji :: string
  option_value :: string
  option_description :: string
  is_default :: bool

text \<open>
  The task \<^verbatim>\<open>asyncio.create_task(self.release())\<close>: scheduled and not started yet,
  suspended at its only \<^verbatim>\<open>await\<close>, finished, ended by an exception (kept in the task,
  which nothing awaits), or cancelled.
\<close>

datatype task_state = Scheduled | AwaitingFetch | Finished | Failed exn | Cancelled

record ui_item =
  custom_id :: string
  disabled :: "bool option"

record embed_field =
  field_name :: string
  field_value :: string
  inline :: bool

record discord_embed =
  title :: "string option"
  description :: "str_or_missing option"
  embed_color :: nat
  embed_fields :: "embed_field list"
  footer :: "string option"
  thumbnail :: "string option"
  image :: "string option"

text \<open>The calls to the chat transport, in the order in which they are made.\<close>

datatype action =
    SendMessage string bool
  | Defer
  | EditOriginalResponse discord_embed
  | EditMessage "ui_item list"

text \<open>
  The state of one \<^verbatim>\<open>UIView\<close> with its \<^verbatim>\<open>UISelect\<close>: \<open>embed\<close> is \<^verbatim>\<open>self.embed\<close>
  (\<open>None\<close> for \<^verbatim>\<open>MISSING\<close>), \<open>message_set\<close> says that \<^verbatim>\<open>self._message\<close> is not
  \<^verbatim>\<open>MISSING\<close>, \<open>options\<close> and \<open>task\<close> are \<^verbatim>\<open>self._select.options\<close> and
  \<^verbatim>\<open>self._select._task\<close>, \<open>children\<close> is \<^verbatim>\<open>self.children\<close> with the attribute
  \<^verbatim>\<open>disabled\<close> of each item (\<open>None\<close> when the item has none).
\<close>

record view =
  ctx_author_id :: nat
  embed :: "discord_embed option"
  message_set :: bool
  options :: "select_option list"
  task :: task_state
  children :: "ui_item list"
  log :: "action list"

definition home_option :: "world \<Rightarrow> select_option" where
  "home_option w =
     \<lparr>label = ''Home'', emoji = get_select_emoji (cache w) ''home'', option_value = ''home'',
      option_description = ''General info, join dates, badges, status, etc...'',
      is_default = True\<rparr>"

definition avatar_option :: "world \<Rightarrow> select_option" where
  "avatar_option w =
     \<lparr>label = ''Avatar'', emoji = get_select_emoji (cache w) ''avatar'', option_value = ''avatar'',
      option_description = ''View the user's global avatar...'', is_default = False\<rparr>"

definition roles_option :: "world \<Rightarrow> select_option" where
  "roles_option w =
     \<lparr>label = ''Roles'', emoji = get_select_emoji (cache w) ''roles'', option_value = ''roles'',
      option_description = ''View the user's roles..'', is_default = False\<rparr>"

definition gavatar_option :: "world \<Rightarrow> select_option" where
  "gavatar_option w =
     \<lparr>label = ''Guid Avatar'', emoji = get_select_emoji (cache w) ''gavatar'',
      option_value = ''gavatar'', option_description = ''View the user's guild avatar...'',
      is_default = False\<rparr>"

definition banner_option :: "world \<Rightarrow> select_option" where
  "banner_option w =
     \<lparr>label = ''Banner'', emoji = get_select_emoji (cache w) ''banner'', option_value = ''banner'',
      option_description = ''View the user's banner...'', is_default = False\<rparr>"

text \<open>
  The attribute \<^verbatim>\<open>view\<close> of an item belongs to the chat library: the library's
  constructor of the item creates it with the value \<^verbatim>\<open>None\<close>, and adding the item to a
  view sets it to that view. So \<^verbatim>\<open>self.view.cache\<close> raises \<^verbatim>\<open>AttributeError\<close> unless the
  item has been added to a view: before the library's constructor has run the item has
  no such attribute, and after it \<^verbatim>\<open>None\<close> has no \<^verbatim>\<open>cache\<close>.
\<close>

datatype view_attr = Unset | NoView | Owner

text \<open>
  What lines 21 to 45 of \<^verbatim>\<open>UISelect.__init__\<close> compute when \<^verbatim>\<open>self.view\<close> is the view:
  the two fixed options, the task (created before the roles are looked at, but it does
  not run before the constructor returns), and the roles option when \<^verbatim>\<open>_get_roles\<close> is
  not empty.
\<close>

definition select_state :: "world \<Rightarrow> select_option list \<times> task_state" where
  "select_state w =
     (let options = [home_option w, avatar_option w];
          task = Scheduled;
          options = (if get_roles (user w) \<noteq> None then options @ [roles_option w] else options)
      in (options, task))"

text \<open>
  \<^verbatim>\<open>UISelect.__init__\<close> on a select whose attribute \<^verbatim>\<open>view\<close> is in the state
  \<open>self_view\<close>. The first thing that the constructor evaluates is
  \<^verbatim>\<open>self.view.cache.get_select_emoji("home")\<close> at line 24, before the task is created
  at line 36 and before \<^verbatim>\<open>super().__init__\<close> at line 46.
\<close>

definition select_init :: "view_attr \<Rightarrow> world \<Rightarrow> exn + select_option list \<times> task_state" where
  "select_init self_view w =
     (case self_view of
        Owner \<Rightarrow> Inr (select_state w)
      | _ \<Rightarrow> Inl AttributeError)"

definition new_view :: "nat \<Rightarrow> select_option list \<Rightarrow> task_state \<Rightarrow> view" where
  "new_view author opts t =
     \<lparr>ctx_author_id = author, embed = None, message_set = False, options = opts,
      task = t, children = [\<lparr>custom_id = ''ui:select'', disabled = Some False\<rparr>],
      log = []\<rparr>"

text \<open>
  \<^verbatim>\<open>UIView.__init__\<close>. \<^verbatim>\<open>UISelect(self._callback)\<close> at line 99 runs the constructor
  of the select on a new object, on which neither the library's constructor nor
  \<^verbatim>\<open>add_item\<close> (line 100) has run: its attribute \<^verbatim>\<open>view\<close> is unset. When the select is
  built, \<^verbatim>\<open>add_item\<close> makes it the only child.
\<close>

definition view_init :: "nat \<Rightarrow> world \<Rightarrow> exn + view" where
  "view_init author w =
     (case select_init Unset w of
        Inl e \<Rightarrow> Inl e
      | Inr (opts, t) \<Rightarrow> Inr (new_view author opts t))"

text \<open>
  \<^verbatim>\<open>UISelect.release\<close>, one turn of the task at a time: from its start to the
  \<^verbatim>\<open>await\<close> of \<^verbatim>\<open>fetch_user\<close>, and from the outcome of that call to the end. An
  exception of \<^verbatim>\<open>fetch_user\<close> is not caught in \<^verbatim>\<open>release\<close>: it ends the task and stays
  in it. A task that is done or cancelled takes no turn.
\<close>

definition release_start :: "world \<Rightarrow> view \<Rightarrow> view" where
  "release_start w v =
     (let v = (if guild_avatar (user w) \<noteq> None
               then v\<lparr>options := options v @ [gavatar_option w]\<rparr> else v)
      in v\<lparr>task := AwaitingFetch\<rparr>)"

definition release_resume :: "world \<Rightarrow> view \<Rightarrow> view" where
  "release_resume w v =
     (case fetch_user w of
        Inl e \<Rightarrow> v\<lparr>task := Failed e\<rparr>
      | Inr banner \<Rightarrow>
          (let v = (if banner \<noteq> None
                    then v\<lparr>options := options v @ [banner_option w]\<rparr> else v)
           in v\<lparr>task := Finished\<rparr>))"

definition task_step :: "world \<Rightarrow> view \<Rightarrow> view" where
  "task_step w v =
     (case task v of
        Scheduled \<Rightarrow> release_start w v
      | AwaitingFetch \<Rightarrow> release_resume w v
      | _ \<Rightarrow> v)"

text \<open>
  \<^verbatim>\<open>UISelect.close\<close>: a task object is truthy, so the task is always cancelled;
  cancelling a task that is done changes nothing.
\<close>

definition close :: "view \<Rightarrow> view" where
  "close v =
     (case task v of
        Scheduled \<Rightarrow> v\<lparr>task := Cancelled\<rparr>
      | AwaitingFetch \<Rightarrow> v\<lparr>task := Cancelled\<rparr>
      | _ \<Rightarrow> v)"

section \<open>The view\<close>

text \<open>
  An operation that can raise returns its outcome (\<open>Inl\<close> the exception) together with
  the state, which keeps what was written before the exception.
\<close>

text \<open>
  \<^verbatim>\<open>UIView.on_timeout\<close>. \<open>edit_result\<close> is what \<^verbatim>\<open>self._message.edit(view=self)\<close>
  does when it is called: \<open>None\<close> when it succeeds, the exception otherwise.
  \<^verbatim>\<open>contextlib.suppress(discord.HTTPException)\<close> ends the block on an exception of that
  class and lets every other exception through.
\<close>

definition on_timeout :: "exn option \<Rightarrow> view \<Rightarrow> (exn + unit) \<times> view" where
  "on_timeout edit_result v0 =
     (let v = v0\<lparr>children :=
                 map (\<lambda>child. if disabled child \<noteq> None then child\<lparr>disabled := Some True\<rparr>
                               else child) (children v0)\<rparr>
      in if message_set v
         then
           (let v = v\<lparr>log := log v @ [EditMessage (children v)]\<rparr>
            in case edit_result of
                 None \<Rightarrow> (Inr (), close v)
               | Some e \<Rightarrow>
                   if isinstance_HTTPException e then (Inr (), close v) else (Inl e, v))
         else (Inr (), close v))"

text \<open>
  \<^verbatim>\<open>UIView.interaction_check\<close>. \<open>send_result\<close> is what
  \<^verbatim>\<open>interaction.response.send_message\<close> does when it is called.
\<close>

definition interaction_check :: "nat \<Rightarrow> exn option \<Rightarrow> view \<Rightarrow> (exn + bool) \<times> view" where
  "interaction_check interaction_user_id send_result v0 =
     (if ctx_author_id v0 \<noteq> interaction_user_id
      then
        (let v = v0\<lparr>log := log v0 @
                      [SendMessage ''You're not the author of this message.'' True]\<rparr>
         in case send_result of
              Some e \<Rightarrow> (Inl e, v)
            | None \<Rightarrow> (Inr False, close v))
      else (Inr True, v0))"

text \<open>\<^verbatim>\<open>str(i)\<close> for an integer.\<close>

definition str_int :: "int \<Rightarrow> string" where
  "str_int i = (if i < 0 then ''-'' @ str_nat (nat (- i)) else str_nat (nat i))"

text \<open>
  \<^verbatim>\<open>xs.index(user)\<close>: members are equal when their ids are; \<open>None\<close> where the code
  raises \<^verbatim>\<open>ValueError\<close>.
\<close>

fun index_of :: "nat \<Rightarrow> member list \<Rightarrow> nat option" where
  "index_of uid [] = None"
| "index_of uid (m # ms) =
     (if user_id m = uid then Some 0 else map_option Suc (index_of uid ms))"

definition new_embed :: "nat \<Rightarrow> discord_embed" where
  "new_embed c =
     \<lparr>title = None, description = None, embed_color = c, embed_fields = [], footer = None,
      thumbnail = None, image = None\<rparr>"

definition add_field :: "string \<Rightarrow> string \<Rightarrow> bool \<Rightarrow> discord_embed \<Rightarrow> discord_embed" where
  "add_field n val inl e =
     e\<lparr>embed_fields := embed_fields e @ [\<lparr>field_name = n, field_value = val, inline = inl\<rparr>]\<rparr>"

text \<open>
  The body of \<^verbatim>\<open>UIView._make_embed\<close> after the test of \<^verbatim>\<open>self.embed\<close>, up to the
  embed that is stored. \<^verbatim>\<open>mod.get_names\<close> on a missing cog raises
  \<^verbatim>\<open>AttributeError\<close>, \<^verbatim>\<open>index\<close> on a user who is not a member of the guild raises
  \<^verbatim>\<open>ValueError\<close>. In the description, the conditional expression binds weaker than
  \<^verbatim>\<open>+\<close>: with at most one shared server the status text is left out.
\<close>

definition build_embed :: "world \<Rightarrow> exn + discord_embed" where
  "build_embed w =
     (let u = user w;
          shared = (case mutual_guilds u of
                      Some gs \<Rightarrow> length gs
                    | None \<Rightarrow>
                        length (remdups (map guild_id
                          (filter (\<lambda>g. user_id u \<in> set (guild_members g)) (guilds w)))))
      in case get_cog_mod w of
           None \<Rightarrow> Inl AttributeError
         | Some m \<Rightarrow>
            (case get_names m u of
               (names, display_names, nicks) \<Rightarrow>
                 let since_created = ''<t:'' @ str_int (timestamp_int (created_at u)) @ '':R>'';
                     since_joined = (case joined_at u of
                                       Some j \<Rightarrow> ''<t:'' @ str_int (timestamp_int j) @ '':R>''
                                     | None \<Rightarrow> ''?'');
                     user_joined = (case joined_at u of
                                      Some j \<Rightarrow> ''<t:'' @ str_int (timestamp_int j) @ ''>''
                                    | None \<Rightarrow> ''Unknown'');
                     user_created = ''<t:'' @ str_int (timestamp_int (created_at u)) @ ''>''
                 in (case index_of (user_id u)
                           (sort_key (\<lambda>m. case joined_at m of
                                             Some j \<Rightarrow> j
                                           | None \<Rightarrow> ctx_message_created_at w)
                              (ctx_guild_members w)) of
                      None \<Rightarrow> Inl ValueError
                    | Some i \<Rightarrow>
                        let position = i + 1;
                            created_on = user_created @ [newline] @ ''( '' @ since_created
                                           @ '' )'' @ [newline];
                            joined_on = user_joined @ [newline] @ ''( '' @ since_joined
                                           @ '' )'' @ [newline];
                            description =
                              (if intents_presences w
                               then
                                 (case get_member_device_status (cache w) u of
                                    (mobile, web, desktop) \<Rightarrow>
                                      let status = get_status_string m u
                                      in if status \<noteq> []
                                         then status @ [newline] @ ''**Devices:** '' @ mobile
                                                @ '' '' @ web @ '' '' @ desktop
                                                @ [newline, newline]
                                         else mobile @ '' '' @ web @ '' '' @ desktop
                                                @ [newline, newline])
                               else []);
                            e = (new_embed (color u))
                                  \<lparr>description := Some (Str
                                     (if shared > 1
                                      then description @ ''**Shared Servers: '' @ str_nat shared
                                             @ ''**''
                                      else ''**Shared Server: '' @ str_nat shared @ ''**''))\<rparr>;
                            e = add_field ''Joined Discord on:'' created_on True e;
                            e = add_field ''Joined this Server on:'' joined_on True e;
                            e = (case names of
                                   Some ns \<Rightarrow>
                                     add_field ''Previous Names:''
                                       (filter_invites w (join '', '' ns)) False e
                                 | None \<Rightarrow> e);
                            e = (case nicks of
                                   Some ns \<Rightarrow>
                                     add_field ''Previous Nicknames:''
                                       (filter_invites w (join '', '' ns)) False e
                                 | None \<Rightarrow> e);
                            e = (case voice_channel u of
                                   Some (channel_mention, channel_id) \<Rightarrow>
                                     add_field ''Current Voice Channel:''
                                       (channel_mention @ '' ID: '' @ str_nat channel_id) False e
                                 | None \<Rightarrow> e);
                            e = e\<lparr>footer := Some (''Member #'' @ str_nat position
                                                   @ '' | User ID: '' @ str_nat (user_id u))\<rparr>;
                            name = (case nick u of
                                      Some n \<Rightarrow>
                                        if n \<noteq> [] then join '' ~ '' [user_str u, n]
                                        else display_name u
                                    | None \<Rightarrow> display_name u);
                            e = e\<lparr>title := Some name\<rparr>;
                            e = e\<lparr>thumbnail := Some (display_avatar_png u)\<rparr>
                        in (case get_user_badges (cache w) u of
                             (badges, badge_count) \<Rightarrow>
                               let e = (if badges \<noteq> []
                                        then add_field
                                               (if badge_count > 1 then ''Badges:'' else ''Badge:'')
                                               badges False e
                                        else e);
                                   special = get_special_badges (cache w) u;
                                   e = (if special \<noteq> []
                                        then add_field
                                               (if length special > 1 then ''Special Badges:''
                                                else ''Special Badge:'')
                                               (join [newline] special) False e
                                        else e)
                               in Inr e))))"

text \<open>
  \<^verbatim>\<open>UIView._make_embed\<close>: the stored embed when there is one, otherwise the embed
  is built and stored.
\<close>

definition make_embed :: "world \<Rightarrow> view \<Rightarrow> (exn + discord_embed) \<times> view" where
  "make_embed w v =
     (case embed v of
        Some e \<Rightarrow> (Inr e, v)
      | None \<Rightarrow>
          (case build_embed w of
             Inl x \<Rightarrow> (Inl x, v)
           | Inr e \<Rightarrow> (Inr e, v\<lparr>embed := Some e\<rparr>)))"

text \<open>\<^verbatim>\<open>await interaction.edit_original_response(embed=embed)\<close>.\<close>

definition respond :: "discord_embed \<Rightarrow> view \<Rightarrow> (exn + unit) \<times> view" where
  "respond e v = (Inr (), v\<lparr>log := log v @ [EditOriginalResponse e]\<rparr>)"

text \<open>
  \<^verbatim>\<open>UIView._callback\<close> for the selected value \<open>val\<close> (\<^verbatim>\<open>self.values[0]\<close>). The calls
  \<^verbatim>\<open>defer\<close> and \<^verbatim>\<open>edit_original_response\<close> are logged and taken to succeed.
\<close>

definition select_callback :: "world \<Rightarrow> string \<Rightarrow> view \<Rightarrow> (exn + unit) \<times> view" where
  "select_callback w val v0 =
     (let v = v0\<lparr>log := log v0 @ [Defer]\<rparr>; u = user w
      in if val = ''home''
         then (case make_embed w v of
                 (Inl x, v') \<Rightarrow> (Inl x, v')
               | (Inr e, v') \<Rightarrow> respond e v')
         else if val = ''avatar''
         then respond
                ((new_embed (color u))
                   \<lparr>title := Some (display_name u @ (CHR 0x27 # ''s Avatar'')),
                    image := Some (case avatar u of Some a \<Rightarrow> a | None \<Rightarrow> default_avatar u)\<rparr>)
                v
         else if val = ''gavatar''
         then respond
                (let e = (new_embed (color u))
                           \<lparr>title := Some (display_name u @ (CHR 0x27 # ''s Guild Avatar''))\<rparr>
                 in case guild_avatar u of
                      Some gavatar \<Rightarrow> e\<lparr>image := Some gavatar\<rparr>
                    | None \<Rightarrow>
                        e\<lparr>description := Some (Str (mention u
                             @ ''  does not have a guild specific avatar.''))\<rparr>)
                v
         else if val = ''banner''
         then (case fetch_user w of
                 Inl x \<Rightarrow> (Inl x, v)
               | Inr b \<Rightarrow>
                   respond
                     (let e = (new_embed (color u))
                                \<lparr>title := Some (display_name u @ (CHR 0x27 # ''s Banner''))\<rparr>
                      in case b of
                           Some banner \<Rightarrow> e\<lparr>image := Some banner\<rparr>
                         | None \<Rightarrow>
                             e\<lparr>description := Some (Str (mention u
                                  @ '' does not have a banner.''))\<rparr>)
                     v)
         else if val = ''roles''
         then respond
                ((new_embed (color u))
                   \<lparr>title := Some (display_name u @ (CHR 0x27 # ''s Roles'')),
                    description := Some
                      (if get_roles u \<noteq> None then format_roles u
                       else Str (mention u @ '' does not have any roles in this server.''))\<rparr>)
                v
         else (Inr (), v))"

section \<open>Runs of one view\<close>

text \<open>
  What can happen to a view after its construction, in any order: a turn of the
  discovery task, an interaction that reaches \<^verbatim>\<open>interaction_check\<close>, a selection that
  reaches the callback, a direct call of \<^verbatim>\<open>_make_embed\<close>, the timeout. Each event
  carries what the outside answers at that moment.
\<close>

datatype event =
    TaskTurn world
  | Check nat "exn option"
  | Select world string
  | MakeEmbed world
  | Timeout "exn option"

fun apply_event :: "event \<Rightarrow> view \<Rightarrow> view" where
  "apply_event (TaskTurn w) v = task_step w v"
| "apply_event (Check actor send_result) v = snd (interaction_check actor send_result v)"
| "apply_event (Select w val) v = snd (select_callback w val v)"
| "apply_event (MakeEmbed w) v = snd (make_embed w v)"
| "apply_event (Timeout edit_result) v = snd (on_timeout edit_result v)"

fun run :: "event list \<Rightarrow> view \<Rightarrow> view" where
  "run [] v = v"
| "run (ev # evs) v = run evs (apply_event ev v)"

section \<open>Example data\<close>

text \<open>
  A member whose roles, after the everyone role, have the given mentions from the
  highest role down, and a world around a member.
\<close>

definition example_member :: "string list \<Rightarrow> member" where
  "example_member mentions =
     \<lparr>user_id = 7, user_str = ''seina'', nick = None, display_name = ''Seina'',
      mention = ''<@7>'', color = 0,
      roles = \<lparr>role_id = 1, role_mention = ''@everyone''\<rparr>
                # rev (map (\<lambda>s. \<lparr>role_id = 2, role_mention = s\<rparr>) mentions),
      avatar = None, default_avatar = ''default.png'', guild_avatar = None,
      display_avatar_png = ''default.png'', created_at = 1600000000000000,
      joined_at = Some 1650000000000000, voice_channel = None, mutual_guilds = Some [1]\<rparr>"

text \<open>
  A view in the state that the two constructors are written to reach: the select as
  lines 21 to 45 leave it when \<^verbatim>\<open>self.view\<close> is the view, as the only child.
\<close>

definition example_view :: "nat \<Rightarrow> world \<Rightarrow> view" where
  "example_view author w = (case select_state w of (opts, t) \<Rightarrow> new_view author opts t)"

definition example_cache :: cache where
  "example_cache =
     \<lparr>get_select_emoji = (\<lambda>name. name),
      get_member_device_status = (\<lambda>m. (''m'', ''w'', ''d'')),
      get_user_badges = (\<lambda>m. ([], 0)),
      get_special_badges = (\<lambda>m. [])\<rparr>"

definition example_mod :: mod_cog where
  "example_mod = \<lparr>get_names = (\<lambda>m. (None, None, None)), get_status_string = (\<lambda>m. [])\<rparr>"

definition example_world :: "member \<Rightarrow> (exn + string option) \<Rightarrow> world" where
  "example_world m fetched =
     \<lparr>user = m, cache = example_cache, get_cog_mod = Some example_mod,
      guilds = [\<lparr>guild_id = 1, guild_members = [user_id m]\<rparr>],
      ctx_guild_members = [m], ctx_message_created_at = 1700000000000000,
      intents_presences = False, fetch_user = fetched, filter_invites = (\<lambda>s. s)\<rparr>"

section \<open>Properties of the role formatter\<close>

lemma length_formatted: "length formatted = 58"
  by (simp add: formatted_def)

lemma format_number_formatted:
  "format_number formatted n = ''and '' @ str_nat n @ '' more roles not displayed due to embed limits.''"
  by (simp add: formatted_def)

lemma length_format_number: "length (format_number formatted n) = 50 + length (str_nat n)"
  by (simp add: format_number_formatted)

lemma length_chunk_of: "length (chunk_of r) = Suc (length r)"
  by (simp add: chunk_of_def)

lemma length_str_nat: "0 < k \<Longrightarrow> n < 10 ^ k \<Longrightarrow> length (str_nat n) \<le> k"
proof (induction n arbitrary: k rule: str_nat.induct)
  case (1 n)
  show ?case
  proof (cases "n < 10")
    case True
    with "1.prems" show ?thesis by (simp add: str_nat.simps [of n])
  next
    case False
    with "1.prems" obtain j where k: "k = Suc j" by (cases k) auto
    with False "1.prems" have j: "0 < j" by (cases j) auto
    from "1.prems" k have "n div 10 < 10 ^ j"
      by (simp add: less_mult_imp_div_less mult.commute)
    with "1.IH" [OF False j] have "length (str_nat (n div 10)) \<le> j" .
    with False k show ?thesis by (simp add: str_nat.simps [of n])
  qed
qed

lemma roles_loop_kept:
  "\<exists>kept. subseq kept rs \<and>
     roles_loop rs (a, cs, k) =
       (a - int (length (concat (map chunk_of kept))), cs @ map chunk_of kept,
        k + (length rs - length kept)) \<and>
     (0 < a \<longrightarrow> int (length (concat (map chunk_of kept))) < a) \<and>
     (\<forall>p. prefix p rs \<and> int (length (concat (map chunk_of p))) < a \<longrightarrow> prefix p kept)"
proof (induction rs arbitrary: a cs k)
  case Nil
  show ?case by (rule exI [of _ "[]"]) simp
next
  case (Cons r rs)
  show ?case
  proof (cases "int (length (chunk_of r)) < a")
    case True
    from Cons.IH [of "a - int (length (chunk_of r))" "cs @ [chunk_of r]" k]
    obtain kept where kept: "subseq kept rs"
      "roles_loop rs (a - int (length (chunk_of r)), cs @ [chunk_of r], k) =
        (a - int (length (chunk_of r)) - int (length (concat (map chunk_of kept))),
         (cs @ [chunk_of r]) @ map chunk_of kept, k + (length rs - length kept))"
      "0 < a - int (length (chunk_of r)) \<longrightarrow>
         int (length (concat (map chunk_of kept))) < a - int (length (chunk_of r))"
      "\<forall>p. prefix p rs \<and> int (length (concat (map chunk_of p))) < a - int (length (chunk_of r))
           \<longrightarrow> prefix p kept"
      by blast
    from kept(1) have le: "length kept \<le> length rs"
      by (simp add: list_emb_length)
    have pre: "prefix p (r # kept)"
      if "prefix p (r # rs)" "int (length (concat (map chunk_of p))) < a" for p
    proof (cases p)
      case Nil
      then show ?thesis by simp
    next
      case (Cons x p')
      with that kept(4) show ?thesis by simp
    qed
    show ?thesis
      apply (rule exI [of _ "r # kept"])
      using True kept(1-3) le pre by (simp add: Let_def Suc_diff_le)
  next
    case False
    from Cons.IH [of a cs "k + 1"]
    obtain kept where kept: "subseq kept rs"
      "roles_loop rs (a, cs, k + 1) =
        (a - int (length (concat (map chunk_of kept))), cs @ map chunk_of kept,
         k + 1 + (length rs - length kept))"
      "0 < a \<longrightarrow> int (length (concat (map chunk_of kept))) < a"
      "\<forall>p. prefix p rs \<and> int (length (concat (map chunk_of p))) < a \<longrightarrow> prefix p kept"
      by blast
    from kept(1) have le: "length kept \<le> length rs"
      by (simp add: list_emb_length)
    have pre: "prefix p kept"
      if "prefix p (r # rs)" "int (length (concat (map chunk_of p))) < a" for p
    proof (cases p)
      case Nil
      then show ?thesis by simp
    next
      case (Cons x p')
      with that False show ?thesis by simp
    qed
    show ?thesis
      apply (rule exI [of _ kept])
      using False kept(1-3) le pre by (simp add: Let_def Suc_diff_le list_emb_Cons)
  qed
qed

lemma roles_loop_all:
  "int (length (concat (map chunk_of rs))) < a \<Longrightarrow>
   roles_loop rs (a, cs, k) =
     (a - int (length (concat (map chunk_of rs))), cs @ map chunk_of rs, k)"
  by (induction rs arbitrary: a cs) (simp_all add: Let_def)

lemma roles_loop_none:
  "a \<le> 1 \<Longrightarrow> roles_loop rs (a, cs, k) = (a, cs, k + length rs)"
  by (induction rs arbitrary: k) (simp_all add: Let_def length_chunk_of)

lemma length_join:
  "rs \<noteq> [] \<Longrightarrow> length (join sep rs) = sum_list (map length rs) + length sep * (length rs - 1)"
  by (induction sep rs rule: join.induct) simp_all

lemma length_concat_chunks:
  "length (concat (map chunk_of rs)) = sum_list (map length rs) + length rs"
  by (induction rs) (simp_all add: length_chunk_of)

lemma get_roles_nonempty: "get_roles u = Some rs \<Longrightarrow> rs \<noteq> []"
  by (auto simp: get_roles_def Let_def split: if_splits)

lemma get_roles_example:
  "get_roles (example_member ms) = (if ms = [] then None else Some ms)"
  by (simp add: get_roles_def example_member_def Let_def rev_map [symmetric] comp_def)

lemma format_roles_long:
  assumes "get_roles u = Some rs" and "4000 < length (join '', '' rs)"
  shows "format_roles u =
     (case roles_loop rs (3942, [], 0) of
        (a, chunks, remaining) \<Rightarrow> Str (concat chunks @ format_number formatted remaining))"
  using assms get_roles_nonempty [OF assms(1)]
  by (simp add: format_roles_def length_formatted Let_def split: prod.splits)

lemma str_nat_digit: "n < 10 \<Longrightarrow> str_nat n = [digit_char n]"
  by (simp add: str_nat.simps)

lemma length_join_replicate:
  "0 < n \<Longrightarrow> length (join sep (replicate n x)) = n * length x + length sep * (n - 1)"
  by (simp add: length_join sum_list_replicate)

text \<open>
  C3. For every non-empty sequence of role mentions whose join with \<^verbatim>\<open>", "\<close> has at
  most 4000 characters, \<^verbatim>\<open>_format_roles\<close> returns exactly that join: there is no
  summary line.
\<close>

theorem format_roles_fits:
  assumes "get_roles u = Some rs" and "length (join '', '' rs) \<le> 4000"
  shows "rs \<noteq> [] \<and> format_roles u = Str (join '', '' rs)"
  using assms get_roles_nonempty [OF assms(1)]
  by (simp add: format_roles_def Let_def)

theorem format_roles_fits_witness:
  "get_roles (example_member [''<@&11>'', ''<@&12>'']) = Some [''<@&11>'', ''<@&12>'']
   \<and> length (join '', '' [''<@&11>'', ''<@&12>'']) \<le> 4000
   \<and> format_roles (example_member [''<@&11>'', ''<@&12>'']) = Str ''<@&11>, <@&12>''"
proof -
  have g: "get_roles (example_member [''<@&11>'', ''<@&12>'']) = Some [''<@&11>'', ''<@&12>'']"
    by (simp add: get_roles_example)
  have l: "length (join '', '' [''<@&11>'', ''<@&12>'']) \<le> 4000"
    by simp
  from format_roles_fits [OF g l] g l show ?thesis by simp
qed

text \<open>
  C8. For a member with no role besides the implicit everyone role, \<^verbatim>\<open>_get_roles\<close>
  returns \<^verbatim>\<open>None\<close> and \<^verbatim>\<open>_format_roles\<close> returns \<^verbatim>\<open>MISSING\<close>, which is not the
  empty string.
\<close>

theorem format_roles_empty:
  assumes "length (roles u) \<le> 1"
  shows "get_roles u = None \<and> format_roles u = MISSING \<and> format_roles u \<noteq> Str []"
proof -
  from assms have "butlast (rev (roles u)) = []"
    by (cases "roles u") (simp_all add: butlast_append)
  then have "get_roles u = None"
    by (simp add: get_roles_def)
  then show ?thesis
    by (simp add: format_roles_def)
qed

theorem format_roles_empty_witness:
  "length (roles (example_member [])) \<le> 1 \<and> get_roles (example_member []) = None
   \<and> format_roles (example_member []) = MISSING \<and> format_roles (example_member []) \<noteq> Str []"
proof -
  have h: "length (roles (example_member [])) \<le> 1"
    by (simp add: example_member_def)
  from format_roles_empty [OF h] h show ?thesis by simp
qed

text \<open>
  C1, as amended. For every sequence of role mentions whose join with \<^verbatim>\<open>", "\<close> has
  more than 4000 characters, the output is the chunks of a subsequence \<open>kept\<close> of the
  input followed by the summary line, and the number in the summary line is exactly the
  number of items that were not appended. The output has at most 3991 characters plus
  the decimal digits of that number: at most 4000 whenever fewer than \<open>10 ^ 9\<close> items
  were left out.
\<close>

theorem format_roles_overflow:
  assumes "get_roles u = Some rs" and "4000 < length (join '', '' rs)"
  shows "\<exists>kept. subseq kept rs \<and>
     snd (roles_loop rs (4000 - int (length formatted), [], 0))
       = (map chunk_of kept, length rs - length kept) \<and>
     format_roles u =
       Str (concat (map chunk_of kept) @ format_number formatted (length rs - length kept)) \<and>
     length (concat (map chunk_of kept) @ format_number formatted (length rs - length kept))
       \<le> 3991 + length (str_nat (length rs - length kept)) \<and>
     (length rs - length kept < 10 ^ 9 \<longrightarrow>
        length (concat (map chunk_of kept) @ format_number formatted (length rs - length kept))
          \<le> 4000)"
proof -
  from roles_loop_kept [of rs 3942 "[]" 0]
  obtain kept where kept: "subseq kept rs"
    "roles_loop rs (3942, [], 0) =
       (3942 - int (length (concat (map chunk_of kept))), map chunk_of kept,
        length rs - length kept)"
    "int (length (concat (map chunk_of kept))) < 3942"
    by auto
  have digits: "length (str_nat (length rs - length kept)) \<le> 9"
    if "length rs - length kept < 10 ^ 9"
    using length_str_nat [of 9 "length rs - length kept"] that by simp
  show ?thesis
    apply (rule exI [of _ kept])
    using kept digits format_roles_long [OF assms]
    by (auto simp add: length_formatted length_format_number)
qed

theorem format_roles_overflow_witness:
  "get_roles (example_member (replicate 50 (replicate 90 CHR ''r'')))
     = Some (replicate 50 (replicate 90 CHR ''r''))
   \<and> 4000 < length (join '', '' (replicate 50 (replicate 90 CHR ''r'')))
   \<and> (\<exists>kept. subseq kept (replicate 50 (replicate 90 CHR ''r'')) \<and>
         format_roles (example_member (replicate 50 (replicate 90 CHR ''r''))) =
           Str (concat (map chunk_of kept) @ format_number formatted (50 - length kept)) \<and>
         length (concat (map chunk_of kept) @ format_number formatted (50 - length kept))
           \<le> 4000)"
proof -
  let ?R = "replicate 50 (replicate 90 CHR ''r'')"
  have g: "get_roles (example_member ?R) = Some ?R"
    by (simp add: get_roles_example)
  have l: "4000 < length (join '', '' ?R)"
    by (simp add: length_join_replicate)
  from format_roles_overflow [OF g l] obtain kept where
    k: "subseq kept ?R"
      "format_roles (example_member ?R) =
         Str (concat (map chunk_of kept) @ format_number formatted (length ?R - length kept))"
      "length ?R - length kept < 10 ^ 9 \<longrightarrow>
         length (concat (map chunk_of kept) @ format_number formatted (length ?R - length kept))
           \<le> 4000"
    by blast
  have "length ?R - length kept < 10 ^ 9" by simp
  with k have "subseq kept ?R \<and>
         format_roles (example_member ?R) =
           Str (concat (map chunk_of kept) @ format_number formatted (50 - length kept)) \<and>
         length (concat (map chunk_of kept) @ format_number formatted (50 - length kept))
           \<le> 4000"
    by simp
  then have "\<exists>kept. subseq kept ?R \<and>
         format_roles (example_member ?R) =
           Str (concat (map chunk_of kept) @ format_number formatted (50 - length kept)) \<and>
         length (concat (map chunk_of kept) @ format_number formatted (50 - length kept))
           \<le> 4000" ..
  with g l show ?thesis by blast
qed

text \<open>
  C1 as stated fails: after one mention of 3940 characters nothing else fits, and with
  \<open>10 ^ 9\<close> further mentions the number in the summary line has ten digits, so the
  output has 4001 characters.
\<close>

theorem format_roles_budget_counterexample:
  "get_roles (example_member (replicate 3940 CHR ''a'' # replicate 1000000000 ''<@&1>''))
     = Some (replicate 3940 CHR ''a'' # replicate 1000000000 ''<@&1>'')
   \<and> 4000 < length (join '', '' (replicate 3940 CHR ''a'' # replicate 1000000000 ''<@&1>''))
   \<and> format_roles (example_member (replicate 3940 CHR ''a'' # replicate 1000000000 ''<@&1>''))
       = Str (replicate 3940 CHR ''a'' @ [newline]
              @ ''and 1000000000 more roles not displayed due to embed limits.'')
   \<and> length (replicate 3940 CHR ''a'' @ [newline]
              @ ''and 1000000000 more roles not displayed due to embed limits.'') = 4001"
proof -
  let ?R = "replicate 3940 CHR ''a'' # replicate 1000000000 ''<@&1>''"
  have g: "get_roles (example_member ?R) = Some ?R"
    by (simp add: get_roles_example)
  have l: "4000 < length (join '', '' ?R)"
    by (simp add: length_join)
  have loop: "roles_loop ?R (3942, [], 0) = (1, [chunk_of (replicate 3940 CHR ''a'')], 1000000000)"
    by (simp add: Let_def length_chunk_of roles_loop_none)
  have digits: "str_nat 1000000000 = ''1000000000''"
    by (simp add: str_nat.simps digit_char_def)
  have "format_roles (example_member ?R)
       = Str (replicate 3940 CHR ''a'' @ [newline]
              @ ''and 1000000000 more roles not displayed due to embed limits.'')"
    unfolding format_roles_long [OF g l] loop
    by (simp add: format_number_formatted digits chunk_of_def)
  with g l show ?thesis by simp
qed

lemma length_concat_replicate: "length (concat (replicate n xs)) = n * length xs"
  by (induction n) simp_all

lemma roles_loop_append:
  "roles_loop (xs @ ys) st = roles_loop ys (roles_loop xs st)"
  by (induction xs st rule: roles_loop.induct) (simp_all add: Let_def)

lemma roles_loop_turn:
  assumes "i < length rs"
  shows "case roles_loop (take i rs) st of
           (available_length, chunks, remaining) \<Rightarrow>
             roles_loop (take (Suc i) rs) st =
               (if int (length (chunk_of (rs ! i))) < available_length
                then (available_length - int (length (chunk_of (rs ! i))),
                      chunks @ [chunk_of (rs ! i)], remaining)
                else (available_length, chunks, remaining + 1))"
proof -
  obtain a cs n where st: "roles_loop (take i rs) st = (a, cs, n)"
    by (cases "roles_loop (take i rs) st") auto
  from assms have "take (Suc i) rs = take i rs @ [rs ! i]"
    by (rule take_Suc_conv_app_nth)
  then have "roles_loop (take (Suc i) rs) st = roles_loop [rs ! i] (a, cs, n)"
    by (simp add: roles_loop_append st)
  then show ?thesis
    by (simp add: st Let_def)
qed

lemma chunk_of_inj: "map chunk_of xs = map chunk_of ys \<Longrightarrow> xs = ys"
  by (rule map_injective) (auto simp add: inj_on_def chunk_of_def)

text \<open>
  C4, as amended. In the overflow case the items in the output are a subsequence
  \<open>kept\<close> of the input, in the order of the input and each followed by a newline.
  Their chunks together stay strictly under 4000 minus the length of the summary
  template, and every prefix of the input whose chunks stay under that bound is
  included whole. The loop does not stop at an item that does not fit: at every
  position \<open>i\<close>, whatever was rejected before, the item is appended exactly when its
  chunk is shorter than the availability left by the items before it, and is counted
  otherwise, the availability staying as it was for the items after it.
\<close>

theorem format_roles_kept_subseq:
  assumes "get_roles u = Some rs" and "4000 < length (join '', '' rs)"
  shows "\<exists>kept. subseq kept rs \<and>
     fst (snd (roles_loop rs (4000 - int (length formatted), [], 0))) = map chunk_of kept \<and>
     format_roles u =
       Str (concat (map chunk_of kept) @ format_number formatted (length rs - length kept)) \<and>
     length (concat (map chunk_of kept)) < 4000 - length formatted \<and>
     (\<forall>p. prefix p rs \<and> length (concat (map chunk_of p)) < 4000 - length formatted
          \<longrightarrow> prefix p kept) \<and>
     (\<forall>i < length rs.
        case roles_loop (take i rs) (4000 - int (length formatted), [], 0) of
          (available_length, chunks, remaining) \<Rightarrow>
            roles_loop (take (Suc i) rs) (4000 - int (length formatted), [], 0) =
              (if int (length (chunk_of (rs ! i))) < available_length
               then (available_length - int (length (chunk_of (rs ! i))),
                     chunks @ [chunk_of (rs ! i)], remaining)
               else (available_length, chunks, remaining + 1)))"
proof -
  from roles_loop_kept [of rs 3942 "[]" 0]
  obtain kept where kept: "subseq kept rs"
    "roles_loop rs (3942, [], 0) =
       (3942 - int (length (concat (map chunk_of kept))), map chunk_of kept,
        length rs - length kept)"
    "int (length (concat (map chunk_of kept))) < 3942"
    "\<forall>p. prefix p rs \<and> int (length (concat (map chunk_of p))) < 3942 \<longrightarrow> prefix p kept"
    by auto
  have turn: "\<forall>i < length rs.
        case roles_loop (take i rs) (4000 - int (length formatted), [], 0) of
          (available_length, chunks, remaining) \<Rightarrow>
            roles_loop (take (Suc i) rs) (4000 - int (length formatted), [], 0) =
              (if int (length (chunk_of (rs ! i))) < available_length
               then (available_length - int (length (chunk_of (rs ! i))),
                     chunks @ [chunk_of (rs ! i)], remaining)
               else (available_length, chunks, remaining + 1))"
    by (intro allI impI) (rule roles_loop_turn)
  have rest: "subseq kept rs \<and>
     fst (snd (roles_loop rs (4000 - int (length formatted), [], 0))) = map chunk_of kept \<and>
     format_roles u =
       Str (concat (map chunk_of kept) @ format_number formatted (length rs - length kept)) \<and>
     length (concat (map chunk_of kept)) < 4000 - length formatted \<and>
     (\<forall>p. prefix p rs \<and> length (concat (map chunk_of p)) < 4000 - length formatted
          \<longrightarrow> prefix p kept)"
    using kept format_roles_long [OF assms]
    by (auto simp add: length_formatted)
  from rest turn show ?thesis by blast
qed

theorem format_roles_kept_subseq_witness:
  "get_roles (example_member [replicate 3930 CHR ''a'', replicate 100 CHR ''b'', ''cc''])
     = Some [replicate 3930 CHR ''a'', replicate 100 CHR ''b'', ''cc'']
   \<and> 4000 < length (join '', '' [replicate 3930 CHR ''a'', replicate 100 CHR ''b'', ''cc''])
   \<and> (2::nat) < length [replicate 3930 CHR ''a'', replicate 100 CHR ''b'', ''cc'']
   \<and> (\<exists>kept. subseq kept [replicate 3930 CHR ''a'', replicate 100 CHR ''b'', ''cc''] \<and>
         kept = [replicate 3930 CHR ''a'', ''cc''] \<and>
         format_roles (example_member [replicate 3930 CHR ''a'', replicate 100 CHR ''b'', ''cc''])
           = Str (concat (map chunk_of kept) @ format_number formatted (3 - length kept)))
   \<and> roles_loop (take 2 [replicate 3930 CHR ''a'', replicate 100 CHR ''b'', ''cc''])
        (4000 - int (length formatted), [], 0)
       = (11, [chunk_of (replicate 3930 CHR ''a'')], 1)
   \<and> roles_loop (take (Suc 2) [replicate 3930 CHR ''a'', replicate 100 CHR ''b'', ''cc''])
        (4000 - int (length formatted), [], 0)
       = (8, [chunk_of (replicate 3930 CHR ''a''), chunk_of ''cc''], 1)"
proof -
  define R where "R = [replicate 3930 CHR ''a'', replicate 100 CHR ''b'', ''cc'']"
  have g: "get_roles (example_member R) = Some R"
    by (simp add: get_roles_example R_def)
  have l: "4000 < length (join '', '' R)"
    by (simp add: R_def)
  have i: "(2::nat) < length R"
    by (simp add: R_def)
  have t2: "roles_loop (take 2 R) (4000 - int (length formatted), [], 0)
              = (11, [chunk_of (replicate 3930 CHR ''a'')], 1)"
    by (simp add: R_def length_formatted Let_def length_chunk_of)
  have whole: "fst (snd (roles_loop R (4000 - int (length formatted), [], 0)))
              = map chunk_of [replicate 3930 CHR ''a'', ''cc'']"
    by (simp add: R_def length_formatted Let_def length_chunk_of)
  from format_roles_kept_subseq [OF g l] obtain kept where
    k: "subseq kept R"
      "fst (snd (roles_loop R (4000 - int (length formatted), [], 0))) = map chunk_of kept"
      "format_roles (example_member R) =
         Str (concat (map chunk_of kept) @ format_number formatted (length R - length kept))"
      "\<forall>i < length R.
        case roles_loop (take i R) (4000 - int (length formatted), [], 0) of
          (available_length, chunks, remaining) \<Rightarrow>
            roles_loop (take (Suc i) R) (4000 - int (length formatted), [], 0) =
              (if int (length (chunk_of (R ! i))) < available_length
               then (available_length - int (length (chunk_of (R ! i))),
                     chunks @ [chunk_of (R ! i)], remaining)
               else (available_length, chunks, remaining + 1))"
    by blast
  from k(2) whole have "map chunk_of kept = map chunk_of [replicate 3930 CHR ''a'', ''cc'']"
    by simp
  then have kept: "kept = [replicate 3930 CHR ''a'', ''cc'']"
    by (rule chunk_of_inj)
  have r2: "R ! 2 = ''cc''"
    by (simp add: R_def)
  note turn = k(4) [rule_format, OF i]
  from turn have t3: "roles_loop (take (Suc 2) R) (4000 - int (length formatted), [], 0)
       = (8, [chunk_of (replicate 3930 CHR ''a''), chunk_of ''cc''], 1)"
    unfolding t2 r2 by (simp add: length_chunk_of)
  have len: "length R = 3"
    by (simp add: R_def)
  from k(1) k(3) kept have "\<exists>kept. subseq kept R \<and>
         kept = [replicate 3930 CHR ''a'', ''cc''] \<and>
         format_roles (example_member R)
           = Str (concat (map chunk_of kept) @ format_number formatted (3 - length kept))"
    unfolding len by blast
  with g l i t2 t3 show ?thesis
    unfolding R_def by blast
qed

text \<open>
  C4 as stated fails: the second of these three mentions is rejected, and the third,
  which still fits, is appended after it; the items of the output are not a prefix of
  the input.
\<close>

theorem format_roles_prefix_counterexample:
  "get_roles (example_member [replicate 3930 CHR ''a'', replicate 100 CHR ''b'', ''cc''])
     = Some [replicate 3930 CHR ''a'', replicate 100 CHR ''b'', ''cc'']
   \<and> 4000 < length (join '', '' [replicate 3930 CHR ''a'', replicate 100 CHR ''b'', ''cc''])
   \<and> roles_loop [replicate 3930 CHR ''a'', replicate 100 CHR ''b'', ''cc'']
        (4000 - int (length formatted), [], 0)
       = (8, [chunk_of (replicate 3930 CHR ''a''), chunk_of ''cc''], 1)
   \<and> format_roles (example_member [replicate 3930 CHR ''a'', replicate 100 CHR ''b'', ''cc''])
       = Str (replicate 3930 CHR ''a'' @ [newline] @ ''cc'' @ [newline]
              @ ''and 1 more roles not displayed due to embed limits.'')
   \<and> \<not> prefix [replicate 3930 CHR ''a'', ''cc'']
          [replicate 3930 CHR ''a'', replicate 100 CHR ''b'', ''cc'']"
proof -
  let ?R = "[replicate 3930 CHR ''a'', replicate 100 CHR ''b'', ''cc'']"
  have g: "get_roles (example_member ?R) = Some ?R"
    by (simp add: get_roles_example)
  have l: "4000 < length (join '', '' ?R)"
    by simp
  have loop: "roles_loop ?R (3942, [], 0)
       = (8, [chunk_of (replicate 3930 CHR ''a''), chunk_of ''cc''], 1)"
    by (simp add: Let_def length_chunk_of)
  have out: "format_roles (example_member ?R)
       = Str (replicate 3930 CHR ''a'' @ [newline] @ ''cc'' @ [newline]
              @ ''and 1 more roles not displayed due to embed limits.'')"
    unfolding format_roles_long [OF g l] loop
    by (simp add: format_number_formatted str_nat_digit digit_char_def chunk_of_def)
  have np: "\<not> prefix [replicate 3930 CHR ''a'', ''cc''] ?R"
  proof
    assume "prefix [replicate 3930 CHR ''a'', ''cc''] ?R"
    then have "''cc'' = replicate 100 CHR ''b''" by simp
    then have "length ''cc'' = length (replicate 100 CHR ''b'')" by (rule arg_cong)
    then show False by simp
  qed
  from g l loop out np show ?thesis by (simp add: length_formatted)
qed

text \<open>
  C10. Whenever the join with \<^verbatim>\<open>", "\<close> has more than 4000 characters the output
  ends with the summary line, whatever the count; and for 167 mentions of 22 characters
  (join of 4006 characters, chunks of 3841) every item is in the output, which ends with
  the line for 0 roles.
\<close>

theorem summary_line_unconditional:
  "(\<forall>u rs. get_roles u = Some rs \<and> 4000 < length (join '', '' rs) \<longrightarrow>
      (\<exists>body n. format_roles u = Str (body @ format_number formatted n)))
   \<and> (\<exists>u rs. get_roles u = Some rs \<and> 4000 < length (join '', '' rs) \<and>
         format_roles u =
           Str (concat (map chunk_of rs)
                @ ''and 0 more roles not displayed due to embed limits.''))"
proof (intro conjI allI impI)
  fix u rs
  assume a: "get_roles u = Some rs \<and> 4000 < length (join '', '' rs)"
  obtain av chunks remaining where loop: "roles_loop rs (3942, [], 0) = (av, chunks, remaining)"
    by (cases "roles_loop rs (3942, [], 0)") auto
  from a have "format_roles u = Str (concat chunks @ format_number formatted remaining)"
    by (simp add: format_roles_long loop)
  then show "\<exists>body n. format_roles u = Str (body @ format_number formatted n)"
    by blast
next
  let ?R = "replicate 167 ''<@&123456789012345678>''"
  have g: "get_roles (example_member ?R) = Some ?R"
    by (simp add: get_roles_example)
  have l: "4000 < length (join '', '' ?R)"
    by (simp add: length_join_replicate)
  have "int (length (concat (map chunk_of ?R))) < 3942"
    by (simp add: length_concat_replicate length_chunk_of)
  then have loop: "roles_loop ?R (3942, [], 0)
      = (3942 - int (length (concat (map chunk_of ?R))), [] @ map chunk_of ?R, 0)"
    by (rule roles_loop_all)
  have out: "format_roles (example_member ?R)
      = Str (concat (map chunk_of ?R) @ ''and 0 more roles not displayed due to embed limits.'')"
    unfolding format_roles_long [OF g l] loop
    by (simp add: format_number_formatted str_nat_digit digit_char_def)
  from g l out show "\<exists>u rs. get_roles u = Some rs \<and> 4000 < length (join '', '' rs) \<and>
         format_roles u =
           Str (concat (map chunk_of rs)
                @ ''and 0 more roles not displayed due to embed limits.'')"
    by blast
qed

theorem summary_line_unconditional_witness:
  "get_roles (example_member (replicate 167 ''<@&123456789012345678>''))
     = Some (replicate 167 ''<@&123456789012345678>'')
   \<and> 4000 < length (join '', '' (replicate 167 ''<@&123456789012345678>''))
   \<and> (\<exists>body n. format_roles (example_member (replicate 167 ''<@&123456789012345678>''))
          = Str (body @ format_number formatted n))"
proof -
  let ?R = "replicate 167 ''<@&123456789012345678>''"
  have g: "get_roles (example_member ?R) = Some ?R"
    by (simp add: get_roles_example)
  have l: "4000 < length (join '', '' ?R)"
    by (simp add: length_join_replicate)
  from summary_line_unconditional g l
  have "\<exists>body n. format_roles (example_member ?R) = Str (body @ format_number formatted n)"
    by blast
  with g l show ?thesis by blast
qed

section \<open>Properties of the view\<close>

lemma close_fields [simp]:
  "options (close v) = options v" "children (close v) = children v"
  "embed (close v) = embed v" "log (close v) = log v"
  "message_set (close v) = message_set v" "ctx_author_id (close v) = ctx_author_id v"
  by (simp_all add: close_def split: task_state.splits)

lemma task_close:
  "task (close v) = (if task v = Scheduled \<or> task v = AwaitingFetch then Cancelled else task v)"
  by (simp add: close_def split: task_state.splits)

lemma make_embed_fields [simp]:
  "options (snd (make_embed w v)) = options v" "children (snd (make_embed w v)) = children v"
  "task (snd (make_embed w v)) = task v" "log (snd (make_embed w v)) = log v"
  "message_set (snd (make_embed w v)) = message_set v"
  "ctx_author_id (snd (make_embed w v)) = ctx_author_id v"
  by (simp_all add: make_embed_def split: option.splits sum.splits)

lemma make_embed_cached: "embed v = Some e \<Longrightarrow> make_embed w v = (Inr e, v)"
  by (simp add: make_embed_def)

lemma make_embed_stores: "fst (make_embed w v) = Inr e \<Longrightarrow> embed (snd (make_embed w v)) = Some e"
  by (auto simp add: make_embed_def split: option.splits sum.splits)

lemma select_callback_fields [simp]:
  "options (snd (select_callback w val v)) = options v"
  "children (snd (select_callback w val v)) = children v"
  "task (snd (select_callback w val v)) = task v"
  "message_set (snd (select_callback w val v)) = message_set v"
  "ctx_author_id (snd (select_callback w val v)) = ctx_author_id v"
  by (simp_all add: select_callback_def respond_def Let_def make_embed_def
      split: option.splits sum.splits prod.splits)

lemma select_callback_embed:
  "embed v = Some e \<Longrightarrow> embed (snd (select_callback w val v)) = Some e"
  by (simp add: select_callback_def respond_def Let_def make_embed_def
      split: option.splits sum.splits prod.splits)

lemma on_timeout_fields [simp]:
  "options (snd (on_timeout r v)) = options v"
  "embed (snd (on_timeout r v)) = embed v"
  "message_set (snd (on_timeout r v)) = message_set v"
  "ctx_author_id (snd (on_timeout r v)) = ctx_author_id v"
  by (simp_all add: on_timeout_def Let_def split: option.splits)

lemma interaction_check_fields [simp]:
  "options (snd (interaction_check a r v)) = options v"
  "children (snd (interaction_check a r v)) = children v"
  "embed (snd (interaction_check a r v)) = embed v"
  "message_set (snd (interaction_check a r v)) = message_set v"
  "ctx_author_id (snd (interaction_check a r v)) = ctx_author_id v"
  by (simp_all add: interaction_check_def Let_def split: option.splits)

lemma task_step_fields [simp]:
  "children (task_step w v) = children v" "embed (task_step w v) = embed v"
  "log (task_step w v) = log v" "message_set (task_step w v) = message_set v"
  "ctx_author_id (task_step w v) = ctx_author_id v"
  by (simp_all add: task_step_def release_start_def release_resume_def Let_def
      split: task_state.splits sum.splits)

lemma apply_event_embed: "embed v = Some e \<Longrightarrow> embed (apply_event ev v) = Some e"
  by (cases ev) (simp_all add: select_callback_embed make_embed_cached)

lemma run_embed: "embed v = Some e \<Longrightarrow> embed (run evs v) = Some e"
  by (induction evs arbitrary: v) (simp_all add: apply_event_embed)

lemma apply_event_author [simp]: "ctx_author_id (apply_event ev v) = ctx_author_id v"
  by (cases ev) simp_all

lemma run_author [simp]: "ctx_author_id (run evs v) = ctx_author_id v"
  by (induction evs arbitrary: v) simp_all

lemma run_append: "run (xs @ ys) v = run ys (run xs v)"
  by (induction xs arbitrary: v) simp_all

lemma task_step_options:
  "prefix (options v) (options (task_step w v))"
  by (simp add: task_step_def release_start_def release_resume_def Let_def
      split: task_state.splits sum.splits)

lemma apply_event_options: "prefix (options v) (options (apply_event ev v))"
  by (cases ev) (simp_all add: task_step_options)

lemma run_options: "prefix (options v) (options (run evs v))"
proof (induction evs arbitrary: v)
  case Nil
  show ?case by simp
next
  case (Cons ev evs)
  have "prefix (options v) (options (apply_event ev v))"
    by (rule apply_event_options)
  also have "prefix (options (apply_event ev v)) (options (run evs (apply_event ev v)))"
    by (rule Cons.IH)
  finally show ?case by simp
qed

lemma task_done_step:
  "task v \<noteq> Scheduled \<Longrightarrow> task v \<noteq> AwaitingFetch \<Longrightarrow>
   task (apply_event ev v) = task v \<and> options (apply_event ev v) = options v"
  by (cases ev)
    (auto simp add: task_step_def task_close interaction_check_def on_timeout_def Let_def
      split: task_state.splits option.splits)

lemma task_done_run:
  "task v \<noteq> Scheduled \<Longrightarrow> task v \<noteq> AwaitingFetch \<Longrightarrow>
   task (run evs v) = task v \<and> options (run evs v) = options v"
proof (induction evs arbitrary: v)
  case Nil
  show ?case by simp
next
  case (Cons ev evs)
  from task_done_step [OF Cons.prems, of ev]
  have s: "task (apply_event ev v) = task v" "options (apply_event ev v) = options v"
    by simp_all
  with Cons.prems Cons.IH [of "apply_event ev v"] show ?case by simp
qed

text \<open>
  C2, as amended. An interaction of a user who is not the author of the command gets
  the ephemeral denial, the discovery task is cancelled when it was still running, and
  the check returns \<^verbatim>\<open>False\<close>. No child is disabled and the view stays in use: the
  check of a later interaction of the author returns \<^verbatim>\<open>True\<close> and changes nothing.
\<close>

theorem foreign_interaction_denied:
  assumes "actor \<noteq> ctx_author_id v"
  shows "interaction_check actor None v =
           (Inr False,
            close (v\<lparr>log := log v @
                     [SendMessage ''You're not the author of this message.'' True]\<rparr>))
     \<and> task (snd (interaction_check actor None v)) \<noteq> Scheduled
     \<and> task (snd (interaction_check actor None v)) \<noteq> AwaitingFetch
     \<and> children (snd (interaction_check actor None v)) = children v
     \<and> (\<forall>r. interaction_check (ctx_author_id v) r (snd (interaction_check actor None v))
            = (Inr True, snd (interaction_check actor None v)))"
proof -
  have eq: "interaction_check actor None v =
           (Inr False,
            close (v\<lparr>log := log v @
                     [SendMessage ''You're not the author of this message.'' True]\<rparr>))"
    using assms by (simp add: interaction_check_def Let_def)
  have t: "task (snd (interaction_check actor None v)) \<noteq> Scheduled"
      "task (snd (interaction_check actor None v)) \<noteq> AwaitingFetch"
    by (simp_all add: eq task_close)
  have "interaction_check (ctx_author_id v) r (snd (interaction_check actor None v))
            = (Inr True, snd (interaction_check actor None v))" for r
    by (simp add: interaction_check_def [of "ctx_author_id v"])
  with eq t show ?thesis by simp
qed

theorem foreign_interaction_denied_witness:
  "(2::nat) \<noteq> ctx_author_id (example_view 1 (example_world (example_member []) (Inr None)))
   \<and> fst (interaction_check 2 None (example_view 1 (example_world (example_member []) (Inr None))))
       = Inr False
   \<and> task (snd (interaction_check 2 None
        (example_view 1 (example_world (example_member []) (Inr None))))) = Cancelled
   \<and> log (snd (interaction_check 2 None
        (example_view 1 (example_world (example_member []) (Inr None)))))
       = [SendMessage ''You're not the author of this message.'' True]"
proof -
  let ?v = "example_view 1 (example_world (example_member []) (Inr None))"
  have h: "(2::nat) \<noteq> ctx_author_id ?v"
    by (simp add: example_view_def select_state_def new_view_def Let_def)
  have f: "task ?v = Scheduled" "log ?v = []"
    by (simp_all add: example_view_def select_state_def new_view_def Let_def)
  from foreign_interaction_denied [OF h] h f show ?thesis
    by (simp add: task_close)
qed

text \<open>
  C2 as stated fails: after the denied interaction of user 2 the select is still
  enabled, the check lets the author (user 1) through and the callback serves the
  selection.
\<close>

theorem foreign_interaction_not_terminal_counterexample:
  "fst (interaction_check 2 None (example_view 1 (example_world (example_member []) (Inr None))))
     = Inr False
   \<and> map disabled (children (snd (interaction_check 2 None
        (example_view 1 (example_world (example_member []) (Inr None)))))) = [Some False]
   \<and> fst (interaction_check 1 None (snd (interaction_check 2 None
        (example_view 1 (example_world (example_member []) (Inr None)))))) = Inr True
   \<and> fst (select_callback (example_world (example_member []) (Inr None)) ''avatar''
        (snd (interaction_check 2 None
          (example_view 1 (example_world (example_member []) (Inr None)))))) = Inr ()"
  by (simp add: interaction_check_def example_view_def select_state_def new_view_def Let_def
      select_callback_def respond_def)

text \<open>
  C9. When the edit of the message succeeds or raises \<^verbatim>\<open>discord.HTTPException\<close> (or a
  subclass), \<^verbatim>\<open>on_timeout\<close> returns normally: every child that has the attribute
  \<^verbatim>\<open>disabled\<close> is disabled, the edit is attempted exactly when the message was set,
  and a discovery task that is still running is cancelled.
\<close>

theorem on_timeout_cleanup:
  assumes "edit_result = None \<or> (\<exists>e. edit_result = Some e \<and> isinstance_HTTPException e)"
  shows "fst (on_timeout edit_result v) = Inr ()
     \<and> children (snd (on_timeout edit_result v))
         = map (\<lambda>child. if disabled child \<noteq> None then child\<lparr>disabled := Some True\<rparr> else child)
             (children v)
     \<and> (\<forall>child \<in> set (children (snd (on_timeout edit_result v))).
           disabled child \<noteq> None \<longrightarrow> disabled child = Some True)
     \<and> log (snd (on_timeout edit_result v))
         = log v @ (if message_set v
                    then [EditMessage (children (snd (on_timeout edit_result v)))] else [])
     \<and> task (snd (on_timeout edit_result v))
         = (if task v = Scheduled \<or> task v = AwaitingFetch then Cancelled else task v)"
  using assms
  by (auto simp add: on_timeout_def Let_def task_close split: option.splits)

theorem on_timeout_cleanup_witness:
  "(Some NotFound = None \<or> (\<exists>e. Some NotFound = Some e \<and> isinstance_HTTPException e))
   \<and> on_timeout (Some NotFound)
        ((example_view 1 (example_world (example_member []) (Inr None)))\<lparr>message_set := True\<rparr>)
       = (Inr (),
          (example_view 1 (example_world (example_member []) (Inr None)))
            \<lparr>message_set := True,
             children := [\<lparr>custom_id = ''ui:select'', disabled = Some True\<rparr>],
             log := [EditMessage [\<lparr>custom_id = ''ui:select'', disabled = Some True\<rparr>]],
             task := Cancelled\<rparr>)"
proof -
  let ?v = "(example_view 1 (example_world (example_member []) (Inr None)))\<lparr>message_set := True\<rparr>"
  have h: "Some NotFound = None \<or> (\<exists>e. Some NotFound = Some e \<and> isinstance_HTTPException e)"
    by simp
  have "fst (on_timeout (Some NotFound) ?v) = Inr ()"
    by (rule on_timeout_cleanup [OF h, THEN conjunct1])
  moreover have "snd (on_timeout (Some NotFound) ?v) =
      (example_view 1 (example_world (example_member []) (Inr None)))
            \<lparr>message_set := True,
             children := [\<lparr>custom_id = ''ui:select'', disabled = Some True\<rparr>],
             log := [EditMessage [\<lparr>custom_id = ''ui:select'', disabled = Some True\<rparr>]],
             task := Cancelled\<rparr>"
    by (auto simp add: on_timeout_def Let_def example_view_def select_state_def new_view_def close_def)
  ultimately show ?thesis using h by (simp add: prod_eq_iff)
qed

lemma init_fields:
  "ctx_author_id (example_view a w) = a" "embed (example_view a w) = None"
  "message_set (example_view a w) = False" "task (example_view a w) = Scheduled"
  "children (example_view a w) = [\<lparr>custom_id = ''ui:select'', disabled = Some False\<rparr>]"
  "log (example_view a w) = []"
  "options (example_view a w) =
     [home_option w, avatar_option w] @ (if get_roles (user w) \<noteq> None then [roles_option w] else [])"
  by (simp_all add: example_view_def select_state_def new_view_def Let_def)

lemma option_values [simp]:
  "option_value (home_option w) = ''home''" "option_value (avatar_option w) = ''avatar''"
  "option_value (roles_option w) = ''roles''" "option_value (gavatar_option w) = ''gavatar''"
  "option_value (banner_option w) = ''banner''"
  by (simp_all add: home_option_def avatar_option_def roles_option_def gavatar_option_def
      banner_option_def)

lemma discovery_step:
  assumes "map option_value (options v) = base @ sfx"
    and "case task v of
           Scheduled \<Rightarrow> sfx = []
         | AwaitingFetch \<Rightarrow> sfx = [] \<or> sfx = [''gavatar'']
         | _ \<Rightarrow> sfx = [] \<or> sfx = [''gavatar''] \<or> sfx = [''banner'']
                  \<or> sfx = [''gavatar'', ''banner'']"
  shows "\<exists>sfx'. map option_value (options (apply_event ev v)) = base @ sfx' \<and>
     (case task (apply_event ev v) of
        Scheduled \<Rightarrow> sfx' = []
      | AwaitingFetch \<Rightarrow> sfx' = [] \<or> sfx' = [''gavatar'']
      | _ \<Rightarrow> sfx' = [] \<or> sfx' = [''gavatar''] \<or> sfx' = [''banner'']
               \<or> sfx' = [''gavatar'', ''banner''])"
proof (cases ev)
  case (TaskTurn w)
  show ?thesis
  proof (cases "task v")
    case Scheduled
    with assms TaskTurn show ?thesis
      by (simp add: task_step_def release_start_def Let_def)
  next
    case AwaitingFetch
    with assms TaskTurn show ?thesis
      by (auto simp add: task_step_def release_resume_def Let_def split: sum.splits)
  next
    case Finished
    with assms TaskTurn show ?thesis by (simp add: task_step_def)
  next
    case (Failed e)
    with assms TaskTurn show ?thesis by (simp add: task_step_def)
  next
    case Cancelled
    with assms TaskTurn show ?thesis by (simp add: task_step_def)
  qed
next
  case (Check actor r)
  with assms show ?thesis
    by (cases "task v")
      (auto simp add: interaction_check_def Let_def close_def split: option.splits)
next
  case (Select w val)
  with assms show ?thesis by simp
next
  case (MakeEmbed w)
  with assms show ?thesis by simp
next
  case (Timeout r)
  with assms show ?thesis
    by (cases "task v")
      (auto simp add: on_timeout_def Let_def close_def split: option.splits)
qed

lemma discovery_run:
  assumes "map option_value (options v) = base @ sfx"
    and "case task v of
           Scheduled \<Rightarrow> sfx = []
         | AwaitingFetch \<Rightarrow> sfx = [] \<or> sfx = [''gavatar'']
         | _ \<Rightarrow> sfx = [] \<or> sfx = [''gavatar''] \<or> sfx = [''banner'']
                  \<or> sfx = [''gavatar'', ''banner'']"
  shows "\<exists>sfx'. map option_value (options (run evs v)) = base @ sfx' \<and>
     (case task (run evs v) of
        Scheduled \<Rightarrow> sfx' = []
      | AwaitingFetch \<Rightarrow> sfx' = [] \<or> sfx' = [''gavatar'']
      | _ \<Rightarrow> sfx' = [] \<or> sfx' = [''gavatar''] \<or> sfx' = [''banner'']
               \<or> sfx' = [''gavatar'', ''banner''])"
  using assms
proof (induction evs arbitrary: v sfx)
  case Nil
  then show ?case by auto
next
  case (Cons ev evs)
  from discovery_step [OF Cons.prems, of ev] obtain s1 where
    s1: "map option_value (options (apply_event ev v)) = base @ s1"
      "case task (apply_event ev v) of
        Scheduled \<Rightarrow> s1 = []
      | AwaitingFetch \<Rightarrow> s1 = [] \<or> s1 = [''gavatar'']
      | _ \<Rightarrow> s1 = [] \<or> s1 = [''gavatar''] \<or> s1 = [''banner'']
               \<or> s1 = [''gavatar'', ''banner'']"
    by blast
  from Cons.IH [OF s1] show ?case by simp
qed

lemma task_step_cases:
  "task v = Scheduled \<Longrightarrow> task_step w v = release_start w v"
  "task v = AwaitingFetch \<Longrightarrow> task_step w v = release_resume w v"
  "task v \<noteq> Scheduled \<Longrightarrow> task v \<noteq> AwaitingFetch \<Longrightarrow> task_step w v = v"
  by (simp_all add: task_step_def split: task_state.splits)

lemma release_start_values:
  "task (release_start w v) = AwaitingFetch"
  "map option_value (options (release_start w v)) =
     map option_value (options v) @ (if guild_avatar (user w) \<noteq> None then [''gavatar''] else [])"
  by (simp_all add: release_start_def Let_def)

lemma release_resume_values:
  "fetch_user w = Inr b \<Longrightarrow> task (release_resume w v) = Finished"
  "fetch_user w = Inr b \<Longrightarrow> map option_value (options (release_resume w v)) =
     map option_value (options v) @ (if b \<noteq> None then [''banner''] else [])"
  "fetch_user w = Inl e \<Longrightarrow> release_resume w v = v\<lparr>task := Failed e\<rparr>"
  by (simp_all add: release_resume_def Let_def)

lemma example_world_fields [simp]:
  "user (example_world m f) = m" "fetch_user (example_world m f) = f"
  by (simp_all add: example_world_def)

lemma str_nat_1: "str_nat (Suc 0) = ''1''" "str_nat 7 = ''7''"
  by (simp_all add: str_nat.simps digit_char_def)

lemma str_int_ts:
  "str_int (timestamp_int 1600000000000000) = ''1600000000''"
  "str_int (timestamp_int 1650000000000000) = ''1650000000''"
  by (simp_all add: timestamp_int_def str_int_def str_nat.simps digit_char_def)

lemma build_example:
  "build_embed (example_world ((example_member [])\<lparr>display_name := d\<rparr>) (Inr None)) =
   Inr \<lparr>title = Some d, description = Some (Str ''**Shared Server: 1**''),
        embed_color = 0,
        embed_fields =
          [\<lparr>field_name = ''Joined Discord on:'',
            field_value = ''<t:1600000000>'' @ [newline] @ ''( <t:1600000000:R> )'' @ [newline],
            inline = True\<rparr>,
           \<lparr>field_name = ''Joined this Server on:'',
            field_value = ''<t:1650000000>'' @ [newline] @ ''( <t:1650000000:R> )'' @ [newline],
            inline = True\<rparr>],
        footer = Some ''Member #1 | User ID: 7'', thumbnail = Some ''default.png'',
        image = None\<rparr>"
  by (simp add: build_embed_def example_world_def example_member_def example_cache_def
      example_mod_def Let_def new_embed_def add_field_def str_nat_1 str_int_ts)

text \<open>
  C5. Once \<^verbatim>\<open>_make_embed\<close> has returned an embed, that embed is stored in the view,
  and after any later events every call of \<^verbatim>\<open>_make_embed\<close> and every selection of
  the home page returns it again and leaves it stored, whatever the member and the
  collaborators answer by then: the embed is not built a second time.
\<close>

theorem home_embed_memoized:
  assumes "fst (make_embed w v) = Inr e"
  shows "embed (snd (make_embed w v)) = Some e
     \<and> (\<forall>evs w'. make_embed w' (run evs (snd (make_embed w v)))
                     = (Inr e, run evs (snd (make_embed w v))))
     \<and> (\<forall>evs w'. select_callback w' ''home'' (run evs (snd (make_embed w v)))
                     = (Inr (), (run evs (snd (make_embed w v)))
                          \<lparr>log := log (run evs (snd (make_embed w v)))
                                    @ [Defer, EditOriginalResponse e]\<rparr>))"
proof -
  define v1 where "v1 = snd (make_embed w v)"
  from assms have s: "embed v1 = Some e"
    unfolding v1_def by (rule make_embed_stores)
  have c: "embed (run evs v1) = Some e" for evs
    using s by (rule run_embed)
  have m: "make_embed w' (run evs v1) = (Inr e, run evs v1)" for evs w'
    using c by (rule make_embed_cached)
  have h: "select_callback w' ''home'' (run evs v1)
             = (Inr (), (run evs v1)\<lparr>log := log (run evs v1) @ [Defer, EditOriginalResponse e]\<rparr>)"
    for evs w'
    using c [of evs] by (simp add: select_callback_def Let_def make_embed_def respond_def)
  from s m h show ?thesis
    unfolding v1_def by simp
qed


theorem home_embed_memoized_witness:
  "fst (make_embed
          (example_world ((example_member [])\<lparr>display_name := ''Seina''\<rparr>) (Inr None))
          (example_view 1
             (example_world ((example_member [])\<lparr>display_name := ''Seina''\<rparr>) (Inr None))))
     = Inr \<lparr>title = Some ''Seina'', description = Some (Str ''**Shared Server: 1**''),
        embed_color = 0,
        embed_fields =
          [\<lparr>field_name = ''Joined Discord on:'',
            field_value = ''<t:1600000000>'' @ [newline] @ ''( <t:1600000000:R> )'' @ [newline],
            inline = True\<rparr>,
           \<lparr>field_name = ''Joined this Server on:'',
            field_value = ''<t:1650000000>'' @ [newline] @ ''( <t:1650000000:R> )'' @ [newline],
            inline = True\<rparr>],
        footer = Some ''Member #1 | User ID: 7'', thumbnail = Some ''default.png'',
        image = None\<rparr>
   \<and> fst (make_embed
          (example_world ((example_member [])\<lparr>display_name := ''Renamed''\<rparr>) (Inr None))
          (snd (make_embed
             (example_world ((example_member [])\<lparr>display_name := ''Seina''\<rparr>) (Inr None))
             (example_view 1
                (example_world ((example_member [])\<lparr>display_name := ''Seina''\<rparr>)
                   (Inr None))))))
     = Inr \<lparr>title = Some ''Seina'', description = Some (Str ''**Shared Server: 1**''),
        embed_color = 0,
        embed_fields =
          [\<lparr>field_name = ''Joined Discord on:'',
            field_value = ''<t:1600000000>'' @ [newline] @ ''( <t:1600000000:R> )'' @ [newline],
            inline = True\<rparr>,
           \<lparr>field_name = ''Joined this Server on:'',
            field_value = ''<t:1650000000>'' @ [newline] @ ''( <t:1650000000:R> )'' @ [newline],
            inline = True\<rparr>],
        footer = Some ''Member #1 | User ID: 7'', thumbnail = Some ''default.png'',
        image = None\<rparr>
   \<and> build_embed
         (example_world ((example_member [])\<lparr>display_name := ''Renamed''\<rparr>) (Inr None))
     \<noteq> build_embed
         (example_world ((example_member [])\<lparr>display_name := ''Seina''\<rparr>) (Inr None))"
proof -
  define w where "w = example_world ((example_member [])\<lparr>display_name := ''Seina''\<rparr>) (Inr None)"
  define w' where
    "w' = example_world ((example_member [])\<lparr>display_name := ''Renamed''\<rparr>) (Inr None)"
  define v0 where "v0 = example_view 1 w"
  define E where "E = \<lparr>title = Some ''Seina'', description = Some (Str ''**Shared Server: 1**''),
        embed_color = 0,
        embed_fields =
          [\<lparr>field_name = ''Joined Discord on:'',
            field_value = ''<t:1600000000>'' @ [newline] @ ''( <t:1600000000:R> )'' @ [newline],
            inline = True\<rparr>,
           \<lparr>field_name = ''Joined this Server on:'',
            field_value = ''<t:1650000000>'' @ [newline] @ ''( <t:1650000000:R> )'' @ [newline],
            inline = True\<rparr>],
        footer = Some ''Member #1 | User ID: 7'', thumbnail = Some ''default.png'',
        image = None\<rparr>"
  have b: "build_embed w = Inr E"
    unfolding w_def E_def by (rule build_example)
  have n: "embed v0 = None"
    by (simp add: v0_def init_fields)
  have first: "fst (make_embed w v0) = Inr E"
    using b n by (simp add: make_embed_def)
  from home_embed_memoized [OF first]
  have "make_embed w' (run [] (snd (make_embed w v0))) = (Inr E, run [] (snd (make_embed w v0)))"
    by blast
  then have second: "fst (make_embed w' (snd (make_embed w v0))) = Inr E"
    by simp
  have fresh: "build_embed w' \<noteq> build_embed w"
    unfolding w_def w'_def build_example by simp
  from first second fresh show ?thesis
    unfolding v0_def w_def w'_def E_def by simp
qed

text \<open>
  C6. The option sequence is meant to start as Home, Avatar and, for a member with
  roles, Roles. The constructor of the view does not get that far: the constructor of
  the select reads \<^verbatim>\<open>self.view\<close> at line 24 for the first option, on a select that no
  view owns yet, and raises \<^verbatim>\<open>AttributeError\<close> for every author and every member,
  before any option exists and before the discovery task is created.
\<close>

theorem constructor_raises:
  "select_init Unset w = Inl AttributeError
   \<and> view_init a w = Inl AttributeError
   \<and> view_init 1 (example_world (example_member [''<@&11>'']) (Inr None)) = Inl AttributeError"
  by (simp add: select_init_def view_init_def)

text \<open>
  C7. When \<^verbatim>\<open>fetch_user\<close> raises in a discovery task that is suspended at its
  \<^verbatim>\<open>await\<close>, the exception ends the task and stays in it: nothing else of the view
  changes (no option is added, no child is disabled, nothing is sent), the options stay
  as they were after any later events, so no banner option is ever added, and the check
  of an interaction of the author still returns \<^verbatim>\<open>True\<close>.
\<close>

theorem fetch_failure_contained:
  assumes "task v = AwaitingFetch" and "fetch_user w = Inl e"
  shows "task_step w v = v\<lparr>task := Failed e\<rparr>
     \<and> options (task_step w v) = options v
     \<and> children (task_step w v) = children v
     \<and> log (task_step w v) = log v
     \<and> (\<forall>evs. options (run evs (task_step w v)) = options v
              \<and> task (run evs (task_step w v)) = Failed e)
     \<and> (''banner'' \<notin> set (map option_value (options v)) \<longrightarrow>
          (\<forall>evs. ''banner'' \<notin> set (map option_value (options (run evs (task_step w v))))))
     \<and> (\<forall>r. interaction_check (ctx_author_id v) r (task_step w v)
              = (Inr True, task_step w v))"
proof -
  have step: "task_step w v = v\<lparr>task := Failed e\<rparr>"
    by (simp add: task_step_cases(2) [OF assms(1)] release_resume_values(3) [OF assms(2)])
  have later: "options (run evs (task_step w v)) = options v
      \<and> task (run evs (task_step w v)) = Failed e" for evs
    using task_done_run [of "v\<lparr>task := Failed e\<rparr>" evs] by (simp add: step)
  have check: "interaction_check (ctx_author_id v) r (task_step w v) = (Inr True, task_step w v)"
    for r
    by (simp add: interaction_check_def)
  from later check show ?thesis
    by (simp add: step)
qed

theorem fetch_failure_contained_witness:
  "task (run [TaskTurn (example_world (example_member []) (Inl NotFound))]
          (example_view 1 (example_world (example_member []) (Inl NotFound)))) = AwaitingFetch
   \<and> fetch_user (example_world (example_member []) (Inl NotFound)) = Inl NotFound
   \<and> map option_value (options (run
        [TaskTurn (example_world (example_member []) (Inl NotFound)),
         TaskTurn (example_world (example_member []) (Inl NotFound))]
        (example_view 1 (example_world (example_member []) (Inl NotFound)))))
       = [''home'', ''avatar'']
   \<and> task (run
        [TaskTurn (example_world (example_member []) (Inl NotFound)),
         TaskTurn (example_world (example_member []) (Inl NotFound))]
        (example_view 1 (example_world (example_member []) (Inl NotFound)))) = Failed NotFound
   \<and> log (run
        [TaskTurn (example_world (example_member []) (Inl NotFound)),
         TaskTurn (example_world (example_member []) (Inl NotFound))]
        (example_view 1 (example_world (example_member []) (Inl NotFound)))) = []"
proof -
  define w where "w = example_world (example_member []) (Inl NotFound)"
  define v0 where "v0 = example_view 1 w"
  have f: "fetch_user w = Inl NotFound"
    by (simp add: w_def)
  have t0: "task v0 = Scheduled"
    by (simp add: v0_def init_fields)
  have ga: "guild_avatar (user w) = None" "get_roles (user w) = None"
    by (simp_all add: w_def example_member_def get_roles_def)
  have t1: "task (run [TaskTurn w] v0) = AwaitingFetch"
    using t0 by (simp add: task_step_cases(1) release_start_values)
  have o1: "map option_value (options (run [TaskTurn w] v0)) = [''home'', ''avatar'']"
    using t0 ga by (simp add: task_step_cases(1) release_start_values)
      (simp add: v0_def init_fields)
  have l1: "log (run [TaskTurn w] v0) = []"
    by (simp add: v0_def init_fields)
  from fetch_failure_contained [OF t1 f]
  have r: "task_step w (run [TaskTurn w] v0) = (run [TaskTurn w] v0)\<lparr>task := Failed NotFound\<rparr>"
    by blast
  have "run [TaskTurn w, TaskTurn w] v0 = task_step w (run [TaskTurn w] v0)"
    by simp
  with r have e: "run [TaskTurn w, TaskTurn w] v0
          = (run [TaskTurn w] v0)\<lparr>task := Failed NotFound\<rparr>"
    by simp
  have "task (run [TaskTurn w] v0) = AwaitingFetch
     \<and> fetch_user w = Inl NotFound
     \<and> map option_value (options (run [TaskTurn w, TaskTurn w] v0)) = [''home'', ''avatar'']
     \<and> task (run [TaskTurn w, TaskTurn w] v0) = Failed NotFound
     \<and> log (run [TaskTurn w, TaskTurn w] v0) = []"
    unfolding e using t1 f o1 l1 by simp
  then show ?thesis
    unfolding v0_def w_def .
qed

end
